theory Spec2Isabelle
  imports Complex_Main "HOL-Library.Product_Lexorder" "HOL-Library.List_Lexorder" "HOL-Library.Char_ord"
begin

section \<open>Tables\<close>

text \<open>
  A spreadsheet cell as the table loader delivers it: an empty cell (NaN, NaT or None),
  a number, a text, or a timestamp. Floating-point numbers are modelled by exact
  rationals; the timestamp is the number of nanoseconds since the epoch.
\<close>

datatype cell = Null | Num rat | Str string | Ts int

text \<open>
  A DataFrame: the column labels, the row labels (the index) and the rows, each row
  holding one cell per column, in column order. \<open>len(df)\<close> is the number of rows.
\<close>

record dataframe =
  columns :: "string list"
  index :: "nat list"
  filas :: "cell list list"

definition len :: "dataframe \<Rightarrow> nat" where
  "len df = length (filas df)"

text \<open>The loader yields one cell per column in every row, and distinct column labels.\<close>

definition bien_formado :: "dataframe \<Rightarrow> bool" where
  "bien_formado df \<longleftrightarrow>
     distinct (columns df) \<and> length (index df) = length (filas df) \<and>
     (\<forall>r \<in> set (filas df). length r = length (columns df))"

text \<open>The cell of row \<open>r\<close> under the column labelled \<open>c\<close>, when there is such a column.\<close>

definition celda_de :: "string list \<Rightarrow> cell list \<Rightarrow> string \<Rightarrow> cell option" where
  "celda_de cols r c = map_of (zip cols r) c"

text \<open>Reading a row by column label; a row too short for its columns reads as NaN.\<close>

definition valor :: "string list \<Rightarrow> cell list \<Rightarrow> string \<Rightarrow> cell" where
  "valor cols r c = (case celda_de cols r c of Some v \<Rightarrow> v | None \<Rightarrow> Null)"

section \<open>Errors\<close>

datatype error =
    FileNotFoundError_carpeta string
  | FileNotFoundError_imagen string
  | ValueError_sin_archivos string string
  | ValueError_columnas string "string set"
  | ValueError_concat
  | ErrorLectura string
  | KeyError string
  | TypeError
  | ValueError_fecha
  | ErrorGrafico

section \<open>Reading and consolidating the input files (excel\_helper.py)\<close>

text \<open>
  A file found by the glob: its name and what \<open>pd.read_excel\<close> makes of it, \<open>None\<close>
  when the loader raises on it. A directory: its path, whether it exists, and the files
  that a glob pattern matches in it, in listing order.
\<close>

record archivo =
  name :: string
  read_excel :: "dataframe option"

record carpeta =
  ruta :: string
  exists :: bool
  glob :: "string \<Rightarrow> archivo list"

text \<open>\<open>pd.concat(dataframes, ignore_index=True)\<close>: the columns are the union of the
  tables' columns in order of first appearance, every row is realigned to them (NaN
  where its table has no such column), and the rows are relabelled 0, 1, 2, ...\<close>

fun agregar_nuevas :: "string list \<Rightarrow> string list \<Rightarrow> string list" where
  "agregar_nuevas acc [] = acc"
| "agregar_nuevas acc (c # cs) = agregar_nuevas (if c \<in> set acc then acc else acc @ [c]) cs"

definition union_columnas :: "dataframe list \<Rightarrow> string list" where
  "union_columnas dfs = foldl agregar_nuevas [] (map columns dfs)"

definition alinear :: "string list \<Rightarrow> string list \<Rightarrow> cell list \<Rightarrow> cell list" where
  "alinear cols todas r = map (valor cols r) todas"

definition concat_ignore_index :: "dataframe list \<Rightarrow> error + dataframe" where
  "concat_ignore_index dfs =
     (if dfs = [] then Inl ValueError_concat
      else let todas = union_columnas dfs;
               rs = concat (map (\<lambda>df. map (alinear (columns df) todas) (filas df)) dfs)
           in Inr \<lparr>columns = todas, index = [0..<length rs], filas = rs\<rparr>)"

text \<open>\<open>set(columnas_requeridas) - set(df.columns)\<close>; an absent or empty list of
  required columns is falsy and switches the validation off.\<close>

definition columnas_faltantes :: "string list option \<Rightarrow> dataframe \<Rightarrow> string set" where
  "columnas_faltantes req df =
     (case req of None \<Rightarrow> {} | Some cs \<Rightarrow> set cs - set (columns df))"

text \<open>The loop over the files: the first file that cannot be loaded or that lacks a
  required column raises, and the exception leaves the function.\<close>

fun leer_cada_archivo ::
  "string list option \<Rightarrow> archivo list \<Rightarrow> dataframe list \<Rightarrow> error + dataframe list" where
  "leer_cada_archivo req [] dataframes = Inr dataframes"
| "leer_cada_archivo req (a # archivos) dataframes =
     (case read_excel a of
        None \<Rightarrow> Inl (ErrorLectura (name a))
      | Some df \<Rightarrow>
          if columnas_faltantes req df \<noteq> {}
          then Inl (ValueError_columnas (name a) (columnas_faltantes req df))
          else leer_cada_archivo req archivos (dataframes @ [df]))"

definition leer_archivos_excel ::
  "carpeta \<Rightarrow> string \<Rightarrow> string list option \<Rightarrow> error + dataframe" where
  "leer_archivos_excel carp patron columnas_requeridas =
     (if \<not> exists carp then Inl (FileNotFoundError_carpeta (ruta carp))
      else let archivos = glob carp patron in
        if archivos = [] then Inl (ValueError_sin_archivos patron (ruta carp))
        else case leer_cada_archivo columnas_requeridas archivos [] of
               Inl e \<Rightarrow> Inl e
             | Inr dataframes \<Rightarrow> concat_ignore_index dataframes)"

section \<open>Numbers\<close>

text \<open>
  \<open>round(2)\<close> rounds to the nearest multiple of 0.01, a tie going to the even
  neighbour: the value is scaled by 100, rounded to the nearest even integer and scaled
  back.
\<close>

definition rint :: "rat \<Rightarrow> int" where
  "rint x = (let f = \<lfloor>x\<rfloor>; d = x - of_int f in
               if d < 1 / 2 then f else if 1 / 2 < d then f + 1
               else if even f then f else f + 1)"

definition round2 :: "rat \<Rightarrow> rat" where
  "round2 x = of_int (rint (x * 100)) / 100"

definition dos_decimales :: "rat \<Rightarrow> bool" where
  "dos_decimales x \<longleftrightarrow> of_int \<lfloor>x * 100\<rfloor> = x * 100"

text \<open>The result of a floating-point division: dividing by zero does not raise, it
  gives NaN or an infinity.\<close>

datatype flt = Fin rat | NaN | PosInf | NegInf

definition fdiv :: "rat \<Rightarrow> rat \<Rightarrow> flt" where
  "fdiv a b = (if b \<noteq> 0 then Fin (a / b)
               else if a = 0 then NaN else if 0 < a then PosInf else NegInf)"

fun fround2 :: "flt \<Rightarrow> flt" where
  "fround2 (Fin q) = Fin (round2 q)"
| "fround2 x = x"

section \<open>Columns, sums and groups\<close>

text \<open>\<open>df[c]\<close>: the cells of a column, or KeyError.\<close>

definition columna :: "dataframe \<Rightarrow> string \<Rightarrow> error + cell list" where
  "columna df c =
     (if c \<in> set (columns df) then Inr (map (\<lambda>r. valor (columns df) r c) (filas df))
      else Inl (KeyError c))"

text \<open>\<open>sum\<close> skips empty cells and adds numbers; a text or a timestamp cannot be
  added. \<open>count\<close> counts the cells that are not empty.\<close>

fun suma :: "cell list \<Rightarrow> error + rat" where
  "suma [] = Inr 0"
| "suma (Null # cs) = suma cs"
| "suma (Num q # cs) = (case suma cs of Inl e \<Rightarrow> Inl e | Inr s \<Rightarrow> Inr (q + s))"
| "suma (c # cs) = Inl TypeError"

definition count :: "cell list \<Rightarrow> nat" where
  "count cs = length (filter (\<lambda>c. c \<noteq> Null) cs)"

text \<open>The order of group keys: numbers before texts before timestamps, each kind in
  its own order (texts byte by byte).\<close>

fun orden :: "cell \<Rightarrow> nat \<times> rat \<times> string \<times> int" where
  "orden Null = (0, 0, [], 0)"
| "orden (Num q) = (1, q, [], 0)"
| "orden (Str s) = (2, 0, s, 0)"
| "orden (Ts t) = (3, 0, [], t)"

text \<open>\<open>df.groupby(c)\<close>: rows whose key is empty belong to no group; the groups come
  sorted by key, and each keeps its rows in the table's order.\<close>

definition claves :: "cell list \<Rightarrow> cell list" where
  "claves ks = sort_key orden (remdups (filter (\<lambda>k. k \<noteq> Null) ks))"

definition groupby :: "dataframe \<Rightarrow> string \<Rightarrow> error + (cell \<times> cell list list) list" where
  "groupby df c =
     (case columna df c of
        Inl e \<Rightarrow> Inl e
      | Inr ks \<Rightarrow>
          Inr (map (\<lambda>k. (k, filter (\<lambda>r. valor (columns df) r c = k) (filas df))) (claves ks)))"

text \<open>Running a fallible computation over every group stops at the first error.\<close>

fun todos :: "(error + 'a) list \<Rightarrow> error + 'a list" where
  "todos [] = Inr []"
| "todos (x # xs) =
     (case x of Inl e \<Rightarrow> Inl e
      | Inr v \<Rightarrow> (case todos xs of Inl e \<Rightarrow> Inl e | Inr vs \<Rightarrow> Inr (v # vs)))"

text \<open>\<open>df.groupby(c)[v].sum()\<close>: one sum per group, a Series indexed by the keys.\<close>

definition groupby_sum :: "dataframe \<Rightarrow> string \<Rightarrow> string \<Rightarrow> error + (cell \<times> rat) list" where
  "groupby_sum df c v =
     (case groupby df c of
        Inl e \<Rightarrow> Inl e
      | Inr gs \<Rightarrow>
          if v \<notin> set (columns df) then Inl (KeyError v)
          else todos (map (\<lambda>(k, rs).
                 case suma (map (\<lambda>r. valor (columns df) r v) rs) of
                   Inl e \<Rightarrow> Inl e | Inr s \<Rightarrow> Inr (k, s)) gs))"

text \<open>\<open>sort_values(..., ascending=False)\<close> and \<open>nlargest(n)\<close>: the largest value
  first; rows of equal value keep the order they had.\<close>

definition sort_values_desc :: "('a \<Rightarrow> rat) \<Rightarrow> 'a list \<Rightarrow> 'a list" where
  "sort_values_desc f xs = sort_key (\<lambda>x. - f x) xs"

definition nlargest :: "int \<Rightarrow> (cell \<times> rat) list \<Rightarrow> (cell \<times> rat) list" where
  "nlargest n s = take (nat n) (sort_values_desc snd s)"

section \<open>The analyses (consolidador.py)\<close>

text \<open>The column label \<open>Categor\'ia\<close>, whose accented letter is two bytes of UTF-8.\<close>

definition Categoria :: string where
  "Categoria = ''Categor'' @ [CHR 0xC3, CHR 0xAD] @ ''a''"

definition COLUMNAS_REQUERIDAS :: "string list" where
  "COLUMNAS_REQUERIDAS =
     [''Fecha'', ''Producto'', Categoria, ''Cantidad'', ''Precio_Unitario'', ''Vendedor'',
      ''Sucursal'']"

subsection \<open>General statistics\<close>

record stats =
  total_ventas :: rat
  total_transacciones :: nat
  ticket_promedio :: flt
  fecha_inicio :: cell
  fecha_fin :: cell
  num_sucursales :: nat
  num_vendedores :: nat
  num_productos :: nat

text \<open>\<open>mean\<close>, \<open>min\<close>, \<open>max\<close> and \<open>nunique\<close> of a column all skip the empty
  cells; the mean of no value is NaN, the minimum of no value is empty.\<close>

definition mean :: "cell list \<Rightarrow> error + flt" where
  "mean cs = (case suma cs of Inl e \<Rightarrow> Inl e | Inr s \<Rightarrow> Inr (fdiv s (of_nat (count cs))))"

definition minimo :: "cell list \<Rightarrow> cell" where
  "minimo cs = (case filter (\<lambda>c. c \<noteq> Null) cs of
                  [] \<Rightarrow> Null
                | x # xs \<Rightarrow> fold (\<lambda>c m. if orden c < orden m then c else m) xs x)"

definition maximo :: "cell list \<Rightarrow> cell" where
  "maximo cs = (case filter (\<lambda>c. c \<noteq> Null) cs of
                  [] \<Rightarrow> Null
                | x # xs \<Rightarrow> fold (\<lambda>c m. if orden m < orden c then c else m) xs x)"

definition nunique :: "cell list \<Rightarrow> nat" where
  "nunique cs = length (remdups (filter (\<lambda>c. c \<noteq> Null) cs))"

definition calcular_estadisticas_generales :: "dataframe \<Rightarrow> error + stats" where
  "calcular_estadisticas_generales df =
     (case columna df ''Total_Venta'' of Inl e \<Rightarrow> Inl e | Inr tv \<Rightarrow>
      case suma tv of Inl e \<Rightarrow> Inl e | Inr suma_total \<Rightarrow>
      case mean tv of Inl e \<Rightarrow> Inl e | Inr promedio \<Rightarrow>
      case columna df ''Fecha'' of Inl e \<Rightarrow> Inl e | Inr fechas \<Rightarrow>
      case columna df ''Sucursal'' of Inl e \<Rightarrow> Inl e | Inr sucursales \<Rightarrow>
      case columna df ''Vendedor'' of Inl e \<Rightarrow> Inl e | Inr vendedores \<Rightarrow>
      case columna df ''Producto'' of Inl e \<Rightarrow> Inl e | Inr productos \<Rightarrow>
        Inr \<lparr>total_ventas = suma_total,
             total_transacciones = len df,
             ticket_promedio = promedio,
             fecha_inicio = minimo fechas,
             fecha_fin = maximo fechas,
             num_sucursales = nunique sucursales,
             num_vendedores = nunique vendedores,
             num_productos = nunique productos\<rparr>)"

subsection \<open>Grouped summaries\<close>

text \<open>A row of a grouped summary: the group key (the index of the summary) and the
  summed revenue, then the columns each summary adds.\<close>

record agregado =
  clave :: cell
  Total_Ventas :: rat

record con_transacciones = agregado +
  Transacciones :: nat

record fila_sucursal = con_transacciones +
  Participacion :: flt

record fila_vendedor = con_transacciones +
  Ticket_Promedio :: flt

record fila_categoria = agregado +
  Unidades_Vendidas :: rat
  Participacion_categoria :: flt

text \<open>\<open>df.groupby(c).agg({'Total_Venta': 'sum', 'Fecha': 'count'}).round(2)\<close>: the
  rounding leaves the integer count as it is.\<close>

definition agg_sum_count :: "dataframe \<Rightarrow> string \<Rightarrow> error + (cell \<times> rat \<times> nat) list" where
  "agg_sum_count df c =
     (case groupby df c of
        Inl e \<Rightarrow> Inl e
      | Inr gs \<Rightarrow>
          if ''Total_Venta'' \<notin> set (columns df) then Inl (KeyError ''Total_Venta'')
          else if ''Fecha'' \<notin> set (columns df) then Inl (KeyError ''Fecha'')
          else todos (map (\<lambda>(k, rs).
                 case suma (map (\<lambda>r. valor (columns df) r ''Total_Venta'') rs) of
                   Inl e \<Rightarrow> Inl e
                 | Inr s \<Rightarrow>
                     Inr (k, round2 s, count (map (\<lambda>r. valor (columns df) r ''Fecha'') rs))) gs))"

definition analizar_ventas_por_sucursal :: "dataframe \<Rightarrow> error + fila_sucursal list" where
  "analizar_ventas_por_sucursal df =
     (case agg_sum_count df ''Sucursal'' of
        Inl e \<Rightarrow> Inl e
      | Inr resumen \<Rightarrow>
          let gran_total = sum_list (map (\<lambda>(k, t, n). t) resumen) in
          Inr (sort_values_desc Total_Ventas
                 (map (\<lambda>(k, t, n). \<lparr>clave = k, Total_Ventas = t, Transacciones = n,
                                    Participacion = fdiv t gran_total\<rparr>) resumen)))"

definition analizar_top_productos ::
  "dataframe \<Rightarrow> int \<Rightarrow> error + (cell \<times> rat) list \<times> (cell \<times> rat) list" where
  "analizar_top_productos df top_n =
     (case groupby_sum df ''Producto'' ''Cantidad'' of
        Inl e \<Rightarrow> Inl e
      | Inr cantidades \<Rightarrow>
          (case groupby_sum df ''Producto'' ''Total_Venta'' of
             Inl e \<Rightarrow> Inl e
           | Inr montos \<Rightarrow>
               Inr (nlargest top_n cantidades,
                    map (\<lambda>(k, v). (k, round2 v)) (nlargest top_n montos))))"

definition analizar_vendedores :: "dataframe \<Rightarrow> error + fila_vendedor list" where
  "analizar_vendedores df =
     (case agg_sum_count df ''Vendedor'' of
        Inl e \<Rightarrow> Inl e
      | Inr vendedores \<Rightarrow>
          Inr (sort_values_desc Total_Ventas
                 (map (\<lambda>(k, t, n). \<lparr>clave = k, Total_Ventas = t, Transacciones = n,
                                    Ticket_Promedio = fround2 (fdiv t (of_nat n))\<rparr>)
                      vendedores)))"

definition analizar_categorias :: "dataframe \<Rightarrow> error + fila_categoria list" where
  "analizar_categorias df =
     (case groupby df Categoria of
        Inl e \<Rightarrow> Inl e
      | Inr gs \<Rightarrow>
          if ''Total_Venta'' \<notin> set (columns df) then Inl (KeyError ''Total_Venta'')
          else if ''Cantidad'' \<notin> set (columns df) then Inl (KeyError ''Cantidad'')
          else
            (case todos (map (\<lambda>(k, rs).
                    case suma (map (\<lambda>r. valor (columns df) r ''Total_Venta'') rs) of
                      Inl e \<Rightarrow> Inl e
                    | Inr s \<Rightarrow>
                        (case suma (map (\<lambda>r. valor (columns df) r ''Cantidad'') rs) of
                           Inl e \<Rightarrow> Inl e
                         | Inr u \<Rightarrow> Inr (k, round2 s, round2 u))) gs) of
               Inl e \<Rightarrow> Inl e
             | Inr categorias \<Rightarrow>
                 let gran_total = sum_list (map (\<lambda>(k, t, u). t) categorias) in
                 Inr (sort_values_desc Total_Ventas
                        (map (\<lambda>(k, t, u). \<lparr>clave = k, Total_Ventas = t,
                                           Unidades_Vendidas = u,
                                           Participacion_categoria = fdiv t gran_total\<rparr>)
                             categorias))))"

subsection \<open>Daily trend\<close>

text \<open>
  \<open>pd.to_datetime\<close> keeps an empty cell empty and a timestamp as it is; what it makes
  of a text or a number is the date library's business, taken here as the parameter
  \<open>conv\<close> (\<open>None\<close> when the value cannot be read as a date, which raises).
\<close>

definition to_datetime :: "(cell \<Rightarrow> int option) \<Rightarrow> cell \<Rightarrow> error + cell" where
  "to_datetime conv c =
     (case c of
        Null \<Rightarrow> Inr Null
      | Ts t \<Rightarrow> Inr (Ts t)
      | _ \<Rightarrow> (case conv c of None \<Rightarrow> Inl ValueError_fecha | Some t \<Rightarrow> Inr (Ts t)))"

text \<open>\<open>df[c] = values\<close>: an existing column is overwritten in place, a new one is
  appended on the right.\<close>

definition asignar_columna :: "dataframe \<Rightarrow> string \<Rightarrow> cell list \<Rightarrow> dataframe" where
  "asignar_columna df c vs =
     (if c \<in> set (columns df)
      then df\<lparr>filas := map (\<lambda>(r, v). map (\<lambda>(col, x). if col = c then v else x)
                                          (zip (columns df) r)) (zip (filas df) vs)\<rparr>
      else df\<lparr>columns := columns df @ [c],
              filas := map (\<lambda>(r, v). r @ [v]) (zip (filas df) vs)\<rparr>)"

text \<open>The function assigns to the caller's table, so it returns the table as it
  leaves it next to its result.\<close>

definition analizar_tendencia_temporal ::
  "(cell \<Rightarrow> int option) \<Rightarrow> dataframe \<Rightarrow> (error + (cell \<times> rat) list) \<times> dataframe" where
  "analizar_tendencia_temporal conv df =
     (case columna df ''Fecha'' of
        Inl e \<Rightarrow> (Inl e, df)
      | Inr fechas \<Rightarrow>
          (case todos (map (to_datetime conv) fechas) of
             Inl e \<Rightarrow> (Inl e, df)
           | Inr ts \<Rightarrow>
               let df' = asignar_columna df ''Fecha'' ts in
               (case groupby_sum df' ''Fecha'' ''Total_Venta'' of
                  Inl e \<Rightarrow> (Inl e, df')
                | Inr tendencia \<Rightarrow> (Inr (map (\<lambda>(k, v). (k, round2 v)) tendencia), df'))))"

subsection \<open>The derived column\<close>

text \<open>\<open>(df['Cantidad'] * df['Precio_Unitario']).round(2)\<close>, cell by cell: an empty
  factor gives an empty product, and only numbers multiply.\<close>

fun multiplicar :: "cell \<Rightarrow> cell \<Rightarrow> error + cell" where
  "multiplicar (Num a) (Num b) = Inr (Num (a * b))"
| "multiplicar Null (Num b) = Inr Null"
| "multiplicar (Num a) Null = Inr Null"
| "multiplicar Null Null = Inr Null"
| "multiplicar a b = Inl TypeError"

fun redondear :: "cell \<Rightarrow> cell" where
  "redondear (Num q) = Num (round2 q)"
| "redondear c = c"

definition calcular_total_venta :: "dataframe \<Rightarrow> error + dataframe" where
  "calcular_total_venta df =
     (case columna df ''Cantidad'' of Inl e \<Rightarrow> Inl e | Inr cantidades \<Rightarrow>
      case columna df ''Precio_Unitario'' of Inl e \<Rightarrow> Inl e | Inr precios \<Rightarrow>
      case todos (map (\<lambda>(a, b). multiplicar a b) (zip cantidades precios)) of
        Inl e \<Rightarrow> Inl e
      | Inr productos \<Rightarrow> Inr (asignar_columna df ''Total_Venta'' (map redondear productos)))"

section \<open>The report workbook\<close>

text \<open>
  A worksheet holds the table that \<open>to_excel\<close> wrote, the cells written one by one
  afterwards, the embedded images, the number formats set on cells and the Excel tables
  declared on it. Fonts, fills, alignments, borders, column widths and row heights carry
  no data; of the styling only the fact that it was applied is kept. A cell is addressed
  by its column letter and row number.
\<close>

type_synonym ref = "string \<times> nat"

record imagen =
  img_width :: nat
  img_height :: nat

datatype contenido =
    Texto string
  | Periodo cell cell
  | Moneda rat
  | Moneda_flt flt
  | Miles nat
  | Entero nat
  | Formula_SUM ref ref

datatype datos_hoja =
    Vacio
  | Datos dataframe
  | Top "(cell \<times> rat \<times> string \<times> cell \<times> rat) list"
  | Vendedores "fila_vendedor list"
  | Sucursales "fila_sucursal list"

record worksheet =
  title :: string
  datos :: datos_hoja
  celdas :: "(ref \<times> contenido) list"
  imagenes :: "(ref \<times> imagen) list"
  number_format :: "(ref \<times> string) list"
  tablas :: "(string \<times> ref \<times> ref) list"
  formato_profesional :: bool

type_synonym workbook = "worksheet list"

text \<open>The last row in use: the header and the rows of the table, or further down a
  cell written afterwards; an empty sheet reports row 1.\<close>

fun filas_escritas :: "datos_hoja \<Rightarrow> nat" where
  "filas_escritas Vacio = 1"
| "filas_escritas (Datos df) = 1 + len df"
| "filas_escritas (Top rs) = 1 + length rs"
| "filas_escritas (Vendedores rs) = 1 + length rs"
| "filas_escritas (Sucursales rs) = 1 + length rs"

definition max_row :: "worksheet \<Rightarrow> nat" where
  "max_row ws = fold max (map (\<lambda>((col, fila), v). fila) (celdas ws)) (filas_escritas (datos ws))"

definition escribir :: "ref \<Rightarrow> contenido \<Rightarrow> worksheet \<Rightarrow> worksheet" where
  "escribir celda v ws = ws\<lparr>celdas := celdas ws @ [(celda, v)]\<rparr>"

definition hoja_nueva :: "string \<Rightarrow> datos_hoja \<Rightarrow> worksheet" where
  "hoja_nueva nombre d =
     \<lparr>title = nombre, datos = d, celdas = [], imagenes = [], number_format = [],
      tablas = [], formato_profesional = False\<rparr>"

subsection \<open>Formatting helpers (excel\_helper.py)\<close>

definition aplicar_formato_profesional :: "worksheet \<Rightarrow> worksheet" where
  "aplicar_formato_profesional ws = ws\<lparr>formato_profesional := True\<rparr>"

definition formatear_columna :: "string \<Rightarrow> worksheet \<Rightarrow> string \<Rightarrow> nat \<Rightarrow> worksheet" where
  "formatear_columna fmt ws columna_letra fila_inicio =
     ws\<lparr>number_format := number_format ws @
          map (\<lambda>row. ((columna_letra, row), fmt)) [fila_inicio ..< max_row ws + 1]\<rparr>"

definition formatear_moneda_columna :: "worksheet \<Rightarrow> string \<Rightarrow> nat \<Rightarrow> worksheet" where
  "formatear_moneda_columna = formatear_columna ''$#,##0.00''"

definition formatear_porcentaje_columna :: "worksheet \<Rightarrow> string \<Rightarrow> nat \<Rightarrow> worksheet" where
  "formatear_porcentaje_columna = formatear_columna ''0.00%''"

definition formatear_numero_columna :: "worksheet \<Rightarrow> string \<Rightarrow> nat \<Rightarrow> worksheet" where
  "formatear_numero_columna = formatear_columna ''#,##0''"

definition crear_tabla_excel :: "worksheet \<Rightarrow> ref \<times> ref \<Rightarrow> string \<Rightarrow> worksheet" where
  "crear_tabla_excel ws rango nombre_tabla = ws\<lparr>tablas := tablas ws @ [(nombre_tabla, rango)]\<rparr>"

text \<open>
  \<open>insertar_imagen_en_excel\<close> raises when the image file is absent; otherwise it
  scales the image (the pixel sizes are truncated to integers) and anchors it at the
  cell. The directory of chart images maps a file name to the image stored under it.
\<close>

definition escalar :: "rat \<Rightarrow> imagen \<Rightarrow> imagen" where
  "escalar escala img =
     (if escala \<noteq> 1
      then \<lparr>img_width = nat \<lfloor>of_nat (img_width img) * escala\<rfloor>,
            img_height = nat \<lfloor>of_nat (img_height img) * escala\<rfloor>\<rparr>
      else img)"

definition insertar_imagen_en_excel ::
  "worksheet \<Rightarrow> (string \<Rightarrow> imagen option) \<Rightarrow> string \<Rightarrow> ref \<Rightarrow> rat \<Rightarrow> error + worksheet" where
  "insertar_imagen_en_excel ws directorio imagen_path celda escala =
     (case directorio imagen_path of
        None \<Rightarrow> Inl (FileNotFoundError_imagen imagen_path)
      | Some img \<Rightarrow> Inr (ws\<lparr>imagenes := imagenes ws @ [(celda, escalar escala img)]\<rparr>))"

subsection \<open>The dashboard sheet (consolidador.py)\<close>

text \<open>The pictographs and accented letters of the sheet's texts, as bytes of UTF-8.\<close>

definition emoji_barras :: string where
  "emoji_barras = [CHR 0xF0, CHR 0x9F, CHR 0x93, CHR 0x8A]"

definition emoji_circular :: string where
  "emoji_circular = [CHR 0xF0, CHR 0x9F, CHR 0xA5, CHR 0xA7]"

definition emoji_linea :: string where
  "emoji_linea = [CHR 0xF0, CHR 0x9F, CHR 0x93, CHR 0x88]"

definition kpis :: "stats \<Rightarrow> (string \<times> contenido) list" where
  "kpis st =
     [(''Total Ventas:'', Moneda (total_ventas st)),
      (''Total Transacciones:'', Miles (total_transacciones st)),
      (''Ticket Promedio:'', Moneda_flt (ticket_promedio st)),
      (''Sucursales:'', Entero (num_sucursales st)),
      (''Vendedores:'', Entero (num_vendedores st)),
      (''Productos '' @ [CHR 0xC3, CHR 0x9A] @ ''nicos:'', Entero (num_productos st))]"

text \<open>Each chart is embedded only when its file is there.\<close>

definition insertar_si_existe ::
  "worksheet \<Rightarrow> (string \<Rightarrow> imagen option) \<Rightarrow> string \<Rightarrow> ref \<Rightarrow> rat \<Rightarrow> error + worksheet" where
  "insertar_si_existe ws graficos_dir archivo_png celda escala =
     (if graficos_dir archivo_png \<noteq> None
      then insertar_imagen_en_excel ws graficos_dir archivo_png celda escala
      else Inr ws)"

definition crear_hoja_dashboard ::
  "worksheet \<Rightarrow> stats \<Rightarrow> (string \<Rightarrow> imagen option) \<Rightarrow> error + worksheet" where
  "crear_hoja_dashboard ws st graficos_dir =
     (let fila_kpi = 5; fila_grafico1 = 13; fila_grafico2 = 13; fila_grafico3 = 38;
          ws1 = escribir (''B'', 2) (Texto (emoji_barras @ '' REPORTE CONSOLIDADO DE VENTAS'')) ws;
          ws2 = escribir (''B'', 3) (Periodo (fecha_inicio st) (fecha_fin st)) ws1;
          ws3 = fold (\<lambda>(i, etiqueta, v) w.
                        escribir (''C'', fila_kpi + i) v
                          (escribir (''B'', fila_kpi + i) (Texto etiqueta) w))
                     (enumerate 0 (kpis st)) ws2;
          ws4 = escribir (''B'', fila_grafico1) (Texto (emoji_barras @ '' Ventas por Sucursal'')) ws3
      in case insertar_si_existe ws4 graficos_dir ''ventas_sucursal.png''
                (''B'', fila_grafico1 + 1) (55 / 100) of
           Inl e \<Rightarrow> Inl e
         | Inr ws5 \<Rightarrow>
             let ws6 = escribir (''I'', fila_grafico2)
                         (Texto (emoji_circular @ '' Distribuci'' @ [CHR 0xC3, CHR 0xB3]
                                 @ ''n por Categor'' @ [CHR 0xC3, CHR 0xAD] @ ''a'')) ws5
             in case insertar_si_existe ws6 graficos_dir ''categorias.png''
                       (''I'', fila_grafico2 + 1) (55 / 100) of
                  Inl e \<Rightarrow> Inl e
                | Inr ws7 \<Rightarrow>
                    let ws8 = escribir (''B'', fila_grafico3)
                                (Texto (emoji_linea @ '' Tendencia de Ventas Diarias'')) ws7
                    in insertar_si_existe ws8 graficos_dir ''tendencia.png''
                         (''B'', fila_grafico3 + 1) (6 / 10))"

section \<open>The run (main)\<close>

text \<open>
  What a run meets outside the program: the input directory, what the date library makes
  of a text or a number, and the image the plotting library saves for a chart of given
  data (\<open>None\<close> when it raises). A run returns its workbook or its error, next to the
  files it has written to disk, in the order of writing.
\<close>

datatype grafico = Barras | Circular | Linea

record entorno =
  INPUT_DIR :: carpeta
  conv_fecha :: "cell \<Rightarrow> int option"
  savefig :: "grafico \<Rightarrow> (cell \<times> rat) list \<Rightarrow> imagen option"

text \<open>\<open>wb[nombre]\<close> and the statements that change that sheet in place.\<close>

fun en_hoja :: "string \<Rightarrow> (worksheet \<Rightarrow> error + worksheet) \<Rightarrow> workbook \<Rightarrow> error + workbook" where
  "en_hoja nombre f [] = Inl (KeyError nombre)"
| "en_hoja nombre f (w # ws) =
     (if title w = nombre
      then (case f w of Inl e \<Rightarrow> Inl e | Inr w' \<Rightarrow> Inr (w' # ws))
      else (case en_hoja nombre f ws of Inl e \<Rightarrow> Inl e | Inr ws' \<Rightarrow> Inr (w # ws')))"

text \<open>Step 5: the writer creates one sheet per \<open>to_excel\<close> call, in call order.\<close>

definition crear_excel ::
  "dataframe \<Rightarrow> (cell \<times> rat) list \<Rightarrow> (cell \<times> rat) list \<Rightarrow> fila_vendedor list \<Rightarrow>
   fila_sucursal list \<Rightarrow> workbook" where
  "crear_excel df tc tm ven suc =
     [hoja_nueva ''Dashboard'' Vacio,
      hoja_nueva ''Datos_Consolidados'' (Datos df),
      hoja_nueva ''Top_Productos''
        (Top (map (\<lambda>((pc, c), (pm, m)). (pc, c, [], pm, m)) (zip tc tm))),
      hoja_nueva ''Analisis_Vendedores'' (Vendedores ven),
      hoja_nueva ''Resumen_Sucursales'' (Sucursales suc)]"

text \<open>Step 6, sheet by sheet.\<close>

definition formatear_datos :: "worksheet \<Rightarrow> worksheet" where
  "formatear_datos ws_datos =
     (let ws1 = aplicar_formato_profesional ws_datos;
          ws2 = formatear_moneda_columna ws1 ''E'' 2;
          ws3 = formatear_moneda_columna ws2 ''H'' 2;
          ws4 = formatear_numero_columna ws3 ''D'' 2
      in crear_tabla_excel ws4 ((''A'', 1), (''H'', max_row ws4)) ''TablaDatosConsolidados'')"

definition formatear_top :: "worksheet \<Rightarrow> worksheet" where
  "formatear_top ws_top =
     (let ws1 = escribir (''A'', 1)
                  (Texto (''M'' @ [CHR 0xC3, CHR 0x81] @ ''S VENDIDOS (Por Cantidad)'')) ws_top;
          ws2 = escribir (''D'', 1)
                  (Texto (''M'' @ [CHR 0xC3, CHR 0x81] @ ''S RENTABLES (Por Monto)'')) ws1;
          ws3 = aplicar_formato_profesional ws2;
          ws4 = formatear_numero_columna ws3 ''B'' 2
      in formatear_moneda_columna ws4 ''E'' 2)"

definition formatear_vendedores :: "worksheet \<Rightarrow> worksheet" where
  "formatear_vendedores ws_vendedores =
     (let ws1 = aplicar_formato_profesional ws_vendedores;
          ws2 = formatear_moneda_columna ws1 ''B'' 2;
          ws3 = formatear_numero_columna ws2 ''C'' 2;
          ws4 = formatear_moneda_columna ws3 ''D'' 2
      in crear_tabla_excel ws4 ((''A'', 1), (''D'', max_row ws4)) ''TablaVendedores'')"

definition formatear_sucursales :: "worksheet \<Rightarrow> worksheet" where
  "formatear_sucursales ws_sucursales =
     (let ws1 = aplicar_formato_profesional ws_sucursales;
          ws2 = formatear_moneda_columna ws1 ''B'' 2;
          ws3 = formatear_numero_columna ws2 ''C'' 2;
          ws4 = formatear_porcentaje_columna ws3 ''D'' 2;
          ultima_fila = max_row ws4 + 1;
          ws5 = escribir (''A'', ultima_fila) (Texto ''TOTAL'') ws4;
          ws6 = escribir (''B'', ultima_fila) (Formula_SUM (''B'', 2) (''B'', ultima_fila - 1)) ws5;
          ws7 = escribir (''C'', ultima_fila) (Formula_SUM (''C'', 2) (''C'', ultima_fila - 1)) ws6;
          ws8 = escribir (''D'', ultima_fila) (Formula_SUM (''D'', 2) (''D'', ultima_fila - 1)) ws7;
          ws9 = formatear_moneda_columna ws8 ''B'' ultima_fila;
          ws10 = formatear_numero_columna ws9 ''C'' ultima_fila
      in formatear_porcentaje_columna ws10 ''D'' ultima_fila)"

definition aplicar_formatos :: "workbook \<Rightarrow> stats \<Rightarrow> (string \<Rightarrow> imagen option) \<Rightarrow> error + workbook" where
  "aplicar_formatos wb st graficos_dir =
     (case en_hoja ''Dashboard'' (\<lambda>ws. crear_hoja_dashboard ws st graficos_dir) wb of
        Inl e \<Rightarrow> Inl e | Inr wb1 \<Rightarrow>
      case en_hoja ''Datos_Consolidados'' (\<lambda>ws. Inr (formatear_datos ws)) wb1 of
        Inl e \<Rightarrow> Inl e | Inr wb2 \<Rightarrow>
      case en_hoja ''Top_Productos'' (\<lambda>ws. Inr (formatear_top ws)) wb2 of
        Inl e \<Rightarrow> Inl e | Inr wb3 \<Rightarrow>
      case en_hoja ''Analisis_Vendedores'' (\<lambda>ws. Inr (formatear_vendedores ws)) wb3 of
        Inl e \<Rightarrow> Inl e | Inr wb4 \<Rightarrow>
      en_hoja ''Resumen_Sucursales'' (\<lambda>ws. Inr (formatear_sucursales ws)) wb4)"

text \<open>Steps 1 to 3 write nothing: reading, the derived column and the analyses.\<close>

record analisis =
  df_consolidado :: dataframe
  estadisticas :: stats
  ventas_sucursal :: "fila_sucursal list"
  top_cantidad :: "(cell \<times> rat) list"
  top_monto :: "(cell \<times> rat) list"
  vendedores_stats :: "fila_vendedor list"
  categorias_stats :: "fila_categoria list"
  tendencia :: "(cell \<times> rat) list"

definition analizar :: "entorno \<Rightarrow> error + analisis" where
  "analizar env =
     (case leer_archivos_excel (INPUT_DIR env) ''*.xlsx'' (Some COLUMNAS_REQUERIDAS) of
        Inl e \<Rightarrow> Inl e | Inr df0 \<Rightarrow>
      case calcular_total_venta df0 of Inl e \<Rightarrow> Inl e | Inr df \<Rightarrow>
      case calcular_estadisticas_generales df of Inl e \<Rightarrow> Inl e | Inr st \<Rightarrow>
      case analizar_ventas_por_sucursal df of Inl e \<Rightarrow> Inl e | Inr suc \<Rightarrow>
      case analizar_top_productos df 10 of Inl e \<Rightarrow> Inl e | Inr (tc, tm) \<Rightarrow>
      case analizar_vendedores df of Inl e \<Rightarrow> Inl e | Inr ven \<Rightarrow>
      case analizar_categorias df of Inl e \<Rightarrow> Inl e | Inr cat \<Rightarrow>
      case analizar_tendencia_temporal (conv_fecha env) df of
        (Inl e, df') \<Rightarrow> Inl e
      | (Inr ten, df') \<Rightarrow>
          Inr \<lparr>df_consolidado = df', estadisticas = st, ventas_sucursal = suc,
               top_cantidad = tc, top_monto = tm, vendedores_stats = ven,
               categorias_stats = cat, tendencia = ten\<rparr>)"

text \<open>Step 4 saves the three charts one after the other; steps 5 and 6 each write the
  report file. An exception at any step ends the run there, with what was written so far.\<close>

definition main :: "entorno \<Rightarrow> (error + workbook) \<times> string list" where
  "main env =
     (case analizar env of
        Inl e \<Rightarrow> (Inl e, [])
      | Inr a \<Rightarrow>
          (case savefig env Barras (map (\<lambda>x. (clave x, Total_Ventas x)) (ventas_sucursal a)) of
             None \<Rightarrow> (Inl ErrorGrafico, [])
           | Some g1 \<Rightarrow>
          (case savefig env Circular (map (\<lambda>x. (clave x, Total_Ventas x)) (categorias_stats a)) of
             None \<Rightarrow> (Inl ErrorGrafico, [''graficos_temp/ventas_sucursal.png''])
           | Some g2 \<Rightarrow>
          (case savefig env Linea (tendencia a) of
             None \<Rightarrow> (Inl ErrorGrafico,
                       [''graficos_temp/ventas_sucursal.png'', ''graficos_temp/categorias.png''])
           | Some g3 \<Rightarrow>
               let graficos = [''graficos_temp/ventas_sucursal.png'',
                               ''graficos_temp/categorias.png'', ''graficos_temp/tendencia.png''];
                   GRAFICOS_DIR = [''ventas_sucursal.png'' \<mapsto> g1, ''categorias.png'' \<mapsto> g2,
                                   ''tendencia.png'' \<mapsto> g3];
                   wb = crear_excel (df_consolidado a) (top_cantidad a) (top_monto a)
                          (vendedores_stats a) (ventas_sucursal a)
               in (case aplicar_formatos wb (estadisticas a) GRAFICOS_DIR of
                     Inl e \<Rightarrow> (Inl e, graficos @ [''reporte_consolidado.xlsx''])
                   | Inr wb' \<Rightarrow>
                       (Inr wb', graficos @ [''reporte_consolidado.xlsx'',
                                             ''reporte_consolidado.xlsx'']))))))"

section \<open>Example inputs\<close>

text \<open>Two monthly files with the seven required columns, and the directory that
  holds them.\<close>

definition ej_enero :: dataframe where
  "ej_enero =
     \<lparr>columns = COLUMNAS_REQUERIDAS, index = [0, 1],
      filas = [[Ts 0, Str ''Lapiz'', Str ''Oficina'', Num 2, Num (3 / 2), Str ''Ana'', Str ''Norte''],
               [Ts 1, Str ''Papel'', Str ''Oficina'', Num 1, Num 4, Str ''Luis'', Str ''Centro'']]\<rparr>"

definition ej_febrero :: dataframe where
  "ej_febrero =
     \<lparr>columns = COLUMNAS_REQUERIDAS, index = [0],
      filas = [[Ts 2, Str ''Lapiz'', Str ''Oficina'', Num 4, Num (3 / 2), Str ''Ana'', Str ''Sur'']]\<rparr>"

definition ej_archivos :: "archivo list" where
  "ej_archivos = [\<lparr>name = ''enero.xlsx'', read_excel = Some ej_enero\<rparr>,
                  \<lparr>name = ''febrero.xlsx'', read_excel = Some ej_febrero\<rparr>]"

definition ej_carpeta :: carpeta where
  "ej_carpeta = \<lparr>ruta = ''input'', exists = True, glob = (\<lambda>patron. ej_archivos)\<rparr>"

text \<open>A directory that does not exist, and one that exists but holds no spreadsheet.\<close>

definition ej_carpeta_ausente :: carpeta where
  "ej_carpeta_ausente = \<lparr>ruta = ''input'', exists = False, glob = (\<lambda>patron. [])\<rparr>"

definition ej_carpeta_vacia :: carpeta where
  "ej_carpeta_vacia = \<lparr>ruta = ''input'', exists = True, glob = (\<lambda>patron. [])\<rparr>"

text \<open>A table without the column \<open>Sucursal\<close>, a directory whose first file cannot be
  loaded and whose second file holds that table, and a directory whose first file is
  sound and whose second file holds that table.\<close>

definition ej_sin_sucursal :: dataframe where
  "ej_sin_sucursal =
     \<lparr>columns = [''Fecha'', ''Producto'', Categoria, ''Cantidad'', ''Precio_Unitario'',
                 ''Vendedor''],
      index = [0],
      filas = [[Ts 2, Str ''Lapiz'', Str ''Oficina'', Num 4, Num (3 / 2), Str ''Ana'']]\<rparr>"

definition ej_carpeta_ilegible :: carpeta where
  "ej_carpeta_ilegible =
     \<lparr>ruta = ''input'', exists = True,
      glob = (\<lambda>patron. [\<lparr>name = ''a.xlsx'', read_excel = None\<rparr>,
                         \<lparr>name = ''b.xlsx'', read_excel = Some ej_sin_sucursal\<rparr>])\<rparr>"

definition ej_carpeta_incompleta :: carpeta where
  "ej_carpeta_incompleta =
     \<lparr>ruta = ''input'', exists = True,
      glob = (\<lambda>patron. [\<lparr>name = ''enero.xlsx'', read_excel = Some ej_enero\<rparr>,
                         \<lparr>name = ''b.xlsx'', read_excel = Some ej_sin_sucursal\<rparr>])\<rparr>"

text \<open>The rest of a run's surroundings, for the examples: no text reads as a date, and
  every chart is saved as an image of 3000 by 1800 pixels.\<close>

definition ej_entorno :: "carpeta \<Rightarrow> entorno" where
  "ej_entorno carp =
     \<lparr>INPUT_DIR = carp, conv_fecha = (\<lambda>c. None),
      savefig = (\<lambda>g d. Some \<lparr>img_width = 3000, img_height = 1800\<rparr>)\<rparr>"

text \<open>The three charts the dashboard expects, each with the cell it is anchored at and
  its scale, and the names of the sheets in the order the writer creates them.\<close>

definition graficos_esperados :: "(string \<times> ref \<times> rat) list" where
  "graficos_esperados =
     [(''ventas_sucursal.png'', (''B'', 14), 55 / 100),
      (''categorias.png'', (''I'', 14), 55 / 100),
      (''tendencia.png'', (''B'', 39), 6 / 10)]"

definition nombres_hojas :: "string list" where
  "nombres_hojas = [''Dashboard'', ''Datos_Consolidados'', ''Top_Productos'',
                    ''Analisis_Vendedores'', ''Resumen_Sucursales'']"

text \<open>General statistics to fill a dashboard with.\<close>

definition ej_stats :: stats where
  "ej_stats = \<lparr>total_ventas = 13, total_transacciones = 3, ticket_promedio = Fin (13 / 3),
               fecha_inicio = Ts 0, fecha_fin = Ts 2, num_sucursales = 3, num_vendedores = 2,
               num_productos = 2\<rparr>"









section \<open>Properties of the consolidation\<close>

lemma set_agregar_nuevas: "set (agregar_nuevas acc cs) = set acc \<union> set cs"
  by (induction cs arbitrary: acc) auto

lemma agregar_nuevas_ya_presentes: "set cs \<subseteq> set acc \<Longrightarrow> agregar_nuevas acc cs = acc"
  by (induction cs arbitrary: acc) auto

lemma agregar_nuevas_distintas:
  "distinct (acc @ cs) \<Longrightarrow> agregar_nuevas acc cs = acc @ cs"
  by (induction cs arbitrary: acc) auto

lemma set_foldl_agregar:
  "set (foldl agregar_nuevas acc css) = set acc \<union> \<Union> (set ` set css)"
  by (induction css arbitrary: acc) (auto simp: set_agregar_nuevas)

lemma foldl_agregar_iguales:
  "\<forall>cs \<in> set css. set cs \<subseteq> set acc \<Longrightarrow> foldl agregar_nuevas acc css = acc"
  by (induction css arbitrary: acc) (auto simp: agregar_nuevas_ya_presentes)

lemma set_union_columnas: "set (union_columnas dfs) = \<Union> ((set \<circ> columns) ` set dfs)"
  by (simp add: union_columnas_def set_foldl_agregar)

lemma union_columnas_iguales:
  assumes "dfs \<noteq> []" and "\<forall>t \<in> set dfs. columns t = cs" and "distinct cs"
  shows "union_columnas dfs = cs"
proof -
  obtain d ds where dfs: "dfs = d # ds" using assms(1) by (cases dfs) auto
  have c: "columns d = cs" using assms(2) dfs by simp
  have "foldl agregar_nuevas (agregar_nuevas [] cs) (map columns ds) = agregar_nuevas [] cs"
    by (rule foldl_agregar_iguales) (use assms(2) dfs in \<open>auto simp: set_agregar_nuevas\<close>)
  moreover have "agregar_nuevas [] cs = cs"
    using agregar_nuevas_distintas [of "[]" cs] assms(3) by simp
  ultimately show ?thesis by (simp add: union_columnas_def dfs c)
qed

lemma celda_alinear:
  assumes "c \<in> set cols" and "set cols \<subseteq> set todas" and "length r = length cols"
  shows "celda_de todas (alinear cols todas r) c = celda_de cols r c"
proof -
  have "c \<in> set todas" using assms by auto
  then have "celda_de todas (alinear cols todas r) c = Some (valor cols r c)"
    by (simp add: celda_de_def alinear_def map_of_zip_map)
  moreover have "c \<in> dom (map_of (zip cols r))"
    using assms by simp
  then obtain v where "celda_de cols r c = Some v" by (auto simp: celda_de_def)
  ultimately show ?thesis by (simp add: valor_def)
qed

lemma alinear_identidad:
  assumes "distinct cs" and "length r = length cs"
  shows "alinear cs cs r = r"
  using assms
  by (auto simp: alinear_def valor_def celda_de_def list_eq_iff_nth_eq map_of_zip_nth)

lemma leer_cada_archivo_ok:
  assumes "map read_excel archivos = map Some dfs"
      and "\<forall>t \<in> set dfs. columnas_faltantes req t = {}"
  shows "leer_cada_archivo req archivos acc = Inr (acc @ dfs)"
  using assms
proof (induction archivos arbitrary: acc dfs)
  case Nil
  then show ?case by simp
next
  case (Cons a archivos)
  then obtain d ds where "dfs = d # ds" by (cases dfs) auto
  with Cons show ?case by simp
qed

lemma length_concat_filas:
  "length (concat (map (\<lambda>df. map (f df) (filas df)) dfs)) = sum_list (map len dfs)"
  by (induction dfs) (auto simp: len_def)

lemma distinct_COLUMNAS: "distinct COLUMNAS_REQUERIDAS"
  by (simp add: COLUMNAS_REQUERIDAS_def Categoria_def)

lemma length_COLUMNAS: "length COLUMNAS_REQUERIDAS = 7"
  by (simp add: COLUMNAS_REQUERIDAS_def)

text \<open>
  C1. When the directory exists, the pattern matches at least one file, and every file
  loads as a well-formed table that has all the required columns, \<open>leer_archivos_excel\<close>
  returns a table whose row count is the sum of the tables' row counts, whose index is
  0, 1, 2, ... and whose rows are the rows of the tables, each table's rows in their own
  order and the tables in processing order. Each row is realigned to the columns of the
  result, which keeps its cell under every column its table has; when the tables share
  one column list the rows are carried over as they are.
\<close>

theorem C1_consolidacion:
  assumes "exists carp" and "glob carp patron = archivos" and "archivos \<noteq> []"
      and "map read_excel archivos = map Some dfs"
      and "\<forall>t \<in> set dfs. bien_formado t \<and> columnas_faltantes req t = {}"
  shows "\<exists>df. leer_archivos_excel carp patron req = Inr df
           \<and> len df = sum_list (map len dfs)
           \<and> index df = [0 ..< len df]
           \<and> filas df = concat (map (\<lambda>t. map (alinear (columns t) (columns df)) (filas t)) dfs)
           \<and> (\<forall>t \<in> set dfs. \<forall>r \<in> set (filas t). \<forall>c \<in> set (columns t).
                  celda_de (columns df) (alinear (columns t) (columns df) r) c
                  = celda_de (columns t) r c)
           \<and> ((\<forall>t \<in> set dfs. columns t = columns (hd dfs))
                \<longrightarrow> columns df = columns (hd dfs) \<and> filas df = concat (map filas dfs))"
proof -
  define todas where "todas = union_columnas dfs"
  define rs where "rs = concat (map (\<lambda>t. map (alinear (columns t) todas) (filas t)) dfs)"
  define df where "df = \<lparr>columns = todas, index = [0 ..< length rs], filas = rs\<rparr>"
  have ne: "dfs \<noteq> []" using assms(3,4) by auto
  have leer: "leer_cada_archivo req archivos [] = Inr dfs"
    using leer_cada_archivo_ok [of archivos dfs req "[]"] assms(4,5) by simp
  have res: "leer_archivos_excel carp patron req = Inr df"
    using assms(1,2,3) leer ne
    by (simp add: leer_archivos_excel_def concat_ignore_index_def Let_def df_def rs_def todas_def)
  have n: "len df = sum_list (map len dfs)"
  proof -
    have "len df = length rs" by (simp add: len_def df_def)
    also have "\<dots> = sum_list (map len dfs)"
      unfolding rs_def by (rule length_concat_filas)
    finally show ?thesis .
  qed
  have idx: "index df = [0 ..< len df]" by (simp add: df_def len_def)
  have fs: "filas df = concat (map (\<lambda>t. map (alinear (columns t) (columns df)) (filas t)) dfs)"
    by (simp add: df_def rs_def)
  have cel: "\<forall>t \<in> set dfs. \<forall>r \<in> set (filas t). \<forall>c \<in> set (columns t).
                  celda_de (columns df) (alinear (columns t) (columns df) r) c
                  = celda_de (columns t) r c"
  proof (intro ballI)
    fix t r c assume t: "t \<in> set dfs" and r: "r \<in> set (filas t)" and c: "c \<in> set (columns t)"
    have "set (columns t) \<subseteq> set todas"
      using t by (auto simp: todas_def set_union_columnas)
    moreover have "length r = length (columns t)"
      using assms(5) t r by (auto simp: bien_formado_def)
    ultimately show "celda_de (columns df) (alinear (columns t) (columns df) r) c
                  = celda_de (columns t) r c"
      using c by (simp add: df_def celda_alinear)
  qed
  have igual: "(\<forall>t \<in> set dfs. columns t = columns (hd dfs))
                \<longrightarrow> columns df = columns (hd dfs) \<and> filas df = concat (map filas dfs)"
  proof
    assume same: "\<forall>t \<in> set dfs. columns t = columns (hd dfs)"
    have d: "distinct (columns (hd dfs))"
      using assms(5) ne by (auto simp: bien_formado_def)
    have u: "todas = columns (hd dfs)"
      unfolding todas_def by (rule union_columnas_iguales [OF ne same d])
    have "map (\<lambda>t. map (alinear (columns t) todas) (filas t)) dfs = map filas dfs"
    proof (rule map_cong [OF refl])
      fix t assume t: "t \<in> set dfs"
      have "\<forall>r \<in> set (filas t). alinear (columns t) todas r = r"
        using assms(5) t same u by (auto simp: bien_formado_def alinear_identidad)
      then show "map (alinear (columns t) todas) (filas t) = filas t"
        by (simp add: map_idI)
    qed
    then have "rs = concat (map filas dfs)"
      unfolding rs_def by (rule arg_cong)
    then show "columns df = columns (hd dfs) \<and> filas df = concat (map filas dfs)"
      using u by (simp add: df_def)
  qed
  show ?thesis using res n idx fs cel igual by blast
qed

text \<open>C1 at the two example files: three rows, relabelled 0, 1, 2, January's rows
  before February's.\<close>

theorem C1_consolidacion_witness:
  "exists ej_carpeta \<and> glob ej_carpeta ''*.xlsx'' = ej_archivos \<and> ej_archivos \<noteq> []
   \<and> map read_excel ej_archivos = map Some [ej_enero, ej_febrero]
   \<and> bien_formado ej_enero \<and> columnas_faltantes (Some COLUMNAS_REQUERIDAS) ej_enero = {}
   \<and> bien_formado ej_febrero \<and> columnas_faltantes (Some COLUMNAS_REQUERIDAS) ej_febrero = {}
   \<and> (\<exists>df. leer_archivos_excel ej_carpeta ''*.xlsx'' (Some COLUMNAS_REQUERIDAS) = Inr df
          \<and> len df = 3 \<and> index df = [0, 1, 2]
          \<and> filas df = filas ej_enero @ filas ej_febrero)"
proof -
  have h1: "exists ej_carpeta" by (simp add: ej_carpeta_def)
  have h2: "glob ej_carpeta ''*.xlsx'' = ej_archivos" by (simp add: ej_carpeta_def)
  have h3: "ej_archivos \<noteq> []" by (simp add: ej_archivos_def)
  have h4: "map read_excel ej_archivos = map Some [ej_enero, ej_febrero]"
    by (simp add: ej_archivos_def)
  have h5: "\<forall>t \<in> set [ej_enero, ej_febrero].
          bien_formado t \<and> columnas_faltantes (Some COLUMNAS_REQUERIDAS) t = {}"
    by (simp add: bien_formado_def columnas_faltantes_def ej_enero_def ej_febrero_def
        distinct_COLUMNAS length_COLUMNAS)
  have cols: "\<forall>t \<in> set [ej_enero, ej_febrero]. columns t = columns (hd [ej_enero, ej_febrero])"
    by (simp add: ej_enero_def ej_febrero_def)
  have n: "sum_list (map len [ej_enero, ej_febrero]) = 3"
    by (simp add: len_def ej_enero_def ej_febrero_def)
  have u: "[0 ..< 3] = [0, 1, 2::nat]" by code_simp
  from C1_consolidacion [OF h1 h2 h3 h4 h5]
  obtain df where r: "leer_archivos_excel ej_carpeta ''*.xlsx'' (Some COLUMNAS_REQUERIDAS) = Inr df"
    and l: "len df = sum_list (map len [ej_enero, ej_febrero])"
    and i: "index df = [0 ..< len df]"
    and f: "(\<forall>t \<in> set [ej_enero, ej_febrero]. columns t = columns (hd [ej_enero, ej_febrero]))
            \<longrightarrow> columns df = columns (hd [ej_enero, ej_febrero])
                \<and> filas df = concat (map filas [ej_enero, ej_febrero])"
    by (elim exE conjE) (rule that)
  have "len df = 3" using l n by simp
  moreover have "index df = [0, 1, 2]" using i \<open>len df = 3\<close> u by simp
  moreover have "filas df = filas ej_enero @ filas ej_febrero"
    using mp [OF f cols, THEN conjunct2] by simp
  ultimately
  have "\<exists>df. leer_archivos_excel ej_carpeta ''*.xlsx'' (Some COLUMNAS_REQUERIDAS) = Inr df
          \<and> len df = 3 \<and> index df = [0, 1, 2]
          \<and> filas df = filas ej_enero @ filas ej_febrero"
    using r by (intro exI [of _ df] conjI)
  moreover from h5 have "bien_formado ej_enero"
    and "columnas_faltantes (Some COLUMNAS_REQUERIDAS) ej_enero = {}"
    and "bien_formado ej_febrero"
    and "columnas_faltantes (Some COLUMNAS_REQUERIDAS) ej_febrero = {}"
    by simp_all
  ultimately show ?thesis using h1 h2 h3 h4 by (intro conjI)
qed

section \<open>Failures of the environment\<close>

lemma leer_cada_archivo_error:
  "leer_cada_archivo req archivos acc = Inl e \<Longrightarrow>
     (\<exists>n. e = ErrorLectura n) \<or> (\<exists>n m. e = ValueError_columnas n m)"
  by (induction archivos arbitrary: acc) (auto split: option.splits if_splits)

lemma concat_ignore_index_error:
  "concat_ignore_index dfs = Inl e \<Longrightarrow> e = ValueError_concat"
  by (auto simp: concat_ignore_index_def Let_def split: if_splits)

lemma leer_archivos_excel_sin_carpeta:
  "\<not> exists carp \<Longrightarrow> leer_archivos_excel carp patron req = Inl (FileNotFoundError_carpeta (ruta carp))"
  by (simp add: leer_archivos_excel_def)

lemma leer_archivos_excel_sin_archivos:
  "exists carp \<Longrightarrow> glob carp patron = [] \<Longrightarrow>
     leer_archivos_excel carp patron req = Inl (ValueError_sin_archivos patron (ruta carp))"
  by (simp add: leer_archivos_excel_def)

lemma leer_archivos_excel_otros_errores:
  assumes "exists carp" and "glob carp patron \<noteq> []"
      and "leer_archivos_excel carp patron req = Inl e"
  shows "(\<exists>n. e = ErrorLectura n) \<or> (\<exists>n m. e = ValueError_columnas n m) \<or> e = ValueError_concat"
  using assms leer_cada_archivo_error [of req "glob carp patron" "[]"]
  by (auto simp: leer_archivos_excel_def Let_def split: sum.splits
           dest: concat_ignore_index_error)

lemma main_sin_lectura:
  "leer_archivos_excel (INPUT_DIR env) ''*.xlsx'' (Some COLUMNAS_REQUERIDAS) = Inl e \<Longrightarrow>
     main env = (Inl e, [])"
  by (simp add: main_def analizar_def)

text \<open>
  C8. \<open>leer_archivos_excel\<close> raises the directory-not-found error exactly when the
  directory does not exist, and the no-matching-files error exactly when the directory
  exists and the pattern matches no file. In both cases the run ends with that error
  and has written no file.
\<close>

theorem C8_errores_de_entorno:
  "((\<exists>p. leer_archivos_excel carp patron req = Inl (FileNotFoundError_carpeta p))
      \<longleftrightarrow> \<not> exists carp)
   \<and> ((\<exists>p d. leer_archivos_excel carp patron req = Inl (ValueError_sin_archivos p d))
      \<longleftrightarrow> exists carp \<and> glob carp patron = [])
   \<and> (\<not> exists (INPUT_DIR env) \<longrightarrow>
        main env = (Inl (FileNotFoundError_carpeta (ruta (INPUT_DIR env))), []))
   \<and> (exists (INPUT_DIR env) \<and> glob (INPUT_DIR env) ''*.xlsx'' = [] \<longrightarrow>
        main env = (Inl (ValueError_sin_archivos ''*.xlsx'' (ruta (INPUT_DIR env))), []))"
proof (intro conjI)
  show "(\<exists>p. leer_archivos_excel carp patron req = Inl (FileNotFoundError_carpeta p))
      \<longleftrightarrow> \<not> exists carp"
  proof
    assume "\<exists>p. leer_archivos_excel carp patron req = Inl (FileNotFoundError_carpeta p)"
    then obtain p where p: "leer_archivos_excel carp patron req = Inl (FileNotFoundError_carpeta p)" ..
    show "\<not> exists carp"
    proof
      assume ex: "exists carp"
      show False
      proof (cases "glob carp patron = []")
        case True
        with ex p show False by (simp add: leer_archivos_excel_sin_archivos)
      next
        case False
        from leer_archivos_excel_otros_errores [OF ex False p] show False by auto
      qed
    qed
  next
    assume "\<not> exists carp"
    then show "\<exists>p. leer_archivos_excel carp patron req = Inl (FileNotFoundError_carpeta p)"
      by (simp add: leer_archivos_excel_sin_carpeta)
  qed
  show "(\<exists>p d. leer_archivos_excel carp patron req = Inl (ValueError_sin_archivos p d))
      \<longleftrightarrow> exists carp \<and> glob carp patron = []"
  proof
    assume "\<exists>p d. leer_archivos_excel carp patron req = Inl (ValueError_sin_archivos p d)"
    then obtain p d where p: "leer_archivos_excel carp patron req = Inl (ValueError_sin_archivos p d)"
      by blast
    have ex: "exists carp"
    proof (rule ccontr)
      assume "\<not> exists carp"
      with p show False by (simp add: leer_archivos_excel_sin_carpeta)
    qed
    have "glob carp patron = []"
    proof (rule ccontr)
      assume ne: "glob carp patron \<noteq> []"
      from leer_archivos_excel_otros_errores [OF ex ne p] show False by auto
    qed
    with ex show "exists carp \<and> glob carp patron = []" by simp
  next
    assume "exists carp \<and> glob carp patron = []"
    then show "\<exists>p d. leer_archivos_excel carp patron req = Inl (ValueError_sin_archivos p d)"
      by (simp add: leer_archivos_excel_sin_archivos)
  qed
  show "\<not> exists (INPUT_DIR env) \<longrightarrow>
        main env = (Inl (FileNotFoundError_carpeta (ruta (INPUT_DIR env))), [])"
    by (simp add: main_sin_lectura leer_archivos_excel_sin_carpeta)
  show "exists (INPUT_DIR env) \<and> glob (INPUT_DIR env) ''*.xlsx'' = [] \<longrightarrow>
        main env = (Inl (ValueError_sin_archivos ''*.xlsx'' (ruta (INPUT_DIR env))), [])"
    by (simp add: main_sin_lectura leer_archivos_excel_sin_archivos)
qed

text \<open>C8 at a directory that is absent and at one that is empty.\<close>

theorem C8_errores_de_entorno_witness:
  "\<not> exists ej_carpeta_ausente
   \<and> main (ej_entorno ej_carpeta_ausente) = (Inl (FileNotFoundError_carpeta ''input''), [])
   \<and> exists ej_carpeta_vacia \<and> glob ej_carpeta_vacia ''*.xlsx'' = []
   \<and> main (ej_entorno ej_carpeta_vacia) = (Inl (ValueError_sin_archivos ''*.xlsx'' ''input''), [])"
proof -
  have a: "\<not> exists (INPUT_DIR (ej_entorno ej_carpeta_ausente))"
    by (simp add: ej_entorno_def ej_carpeta_ausente_def)
  have v: "exists (INPUT_DIR (ej_entorno ej_carpeta_vacia))
           \<and> glob (INPUT_DIR (ej_entorno ej_carpeta_vacia)) ''*.xlsx'' = []"
    by (simp add: ej_entorno_def ej_carpeta_vacia_def)
  have "main (ej_entorno ej_carpeta_ausente)
        = (Inl (FileNotFoundError_carpeta (ruta (INPUT_DIR (ej_entorno ej_carpeta_ausente)))), [])"
    by (rule C8_errores_de_entorno [of ej_carpeta_ausente "''*.xlsx''" None
          "ej_entorno ej_carpeta_ausente", THEN conjunct2, THEN conjunct2, THEN conjunct1,
          THEN mp, OF a])
  moreover have "main (ej_entorno ej_carpeta_vacia)
        = (Inl (ValueError_sin_archivos ''*.xlsx'' (ruta (INPUT_DIR (ej_entorno ej_carpeta_vacia)))), [])"
    by (rule C8_errores_de_entorno [of ej_carpeta_vacia "''*.xlsx''" None
          "ej_entorno ej_carpeta_vacia", THEN conjunct2, THEN conjunct2, THEN conjunct2,
          THEN mp, OF v])
  ultimately show ?thesis
    by (simp add: ej_entorno_def ej_carpeta_ausente_def ej_carpeta_vacia_def)
qed

section \<open>Missing required columns\<close>

lemma leer_cada_archivo_falla:
  "a \<in> set archivos \<Longrightarrow> read_excel a = Some df \<Longrightarrow> columnas_faltantes req df \<noteq> {} \<Longrightarrow>
     \<exists>e. leer_cada_archivo req archivos acc = Inl e"
  by (induction archivos arbitrary: acc) (auto split: option.splits)

lemma leer_cada_archivo_primera_falla:
  assumes "map read_excel previos = map Some dfs"
      and "\<forall>t \<in> set dfs. columnas_faltantes req t = {}"
      and "read_excel a = Some df" and "columnas_faltantes req df \<noteq> {}"
  shows "leer_cada_archivo req (previos @ a # resto) acc
         = Inl (ValueError_columnas (name a) (columnas_faltantes req df))"
  using assms(1,2)
proof (induction previos arbitrary: acc dfs)
  case Nil
  then show ?case using assms(3,4) by simp
next
  case (Cons p previos)
  then obtain d ds where "dfs = d # ds" by (cases dfs) auto
  with Cons show ?case by simp
qed

lemma faltantes_sin_sucursal:
  "columnas_faltantes (Some COLUMNAS_REQUERIDAS) ej_sin_sucursal = {''Sucursal''}"
  by (auto simp: columnas_faltantes_def COLUMNAS_REQUERIDAS_def ej_sin_sucursal_def Categoria_def)

lemma faltantes_enero: "columnas_faltantes (Some COLUMNAS_REQUERIDAS) ej_enero = {}"
  by (simp add: columnas_faltantes_def ej_enero_def)

text \<open>
  C2 as stated fails: with a first file that cannot be loaded and a second file that
  lacks the column \<open>Sucursal\<close>, the error raised is the loader's error on the first
  file; it names neither the second file nor its missing column.
\<close>

theorem C2_counterexample:
  "exists ej_carpeta_ilegible
   \<and> glob ej_carpeta_ilegible ''*.xlsx''
       = [\<lparr>name = ''a.xlsx'', read_excel = None\<rparr>,
          \<lparr>name = ''b.xlsx'', read_excel = Some ej_sin_sucursal\<rparr>]
   \<and> columnas_faltantes (Some COLUMNAS_REQUERIDAS) ej_sin_sucursal = {''Sucursal''}
   \<and> leer_archivos_excel ej_carpeta_ilegible ''*.xlsx'' (Some COLUMNAS_REQUERIDAS)
       = Inl (ErrorLectura ''a.xlsx'')
   \<and> leer_archivos_excel ej_carpeta_ilegible ''*.xlsx'' (Some COLUMNAS_REQUERIDAS)
       \<noteq> Inl (ValueError_columnas ''b.xlsx'' {''Sucursal''})"
  by (simp add: faltantes_sin_sucursal leer_archivos_excel_def ej_carpeta_ilegible_def)

text \<open>
  C2, amended. When the directory exists and some matched file loads as a table that
  lacks a required column, \<open>leer_archivos_excel\<close> returns an error and no table, and a
  run that reads this directory ends with an error and has written no file. The error
  is that of the first file, in processing order, that fails: when every file before the
  offending one loads and has all required columns, the error names the offending file
  and the set of its missing columns.
\<close>

theorem C2_columnas_faltantes:
  assumes "exists carp" and "a \<in> set (glob carp patron)"
      and "read_excel a = Some df" and "columnas_faltantes req df \<noteq> {}"
  shows "(\<exists>e. leer_archivos_excel carp patron req = Inl e)
       \<and> (\<forall>previos resto dfs.
             glob carp patron = previos @ a # resto \<and> map read_excel previos = map Some dfs
             \<and> (\<forall>t \<in> set dfs. columnas_faltantes req t = {})
             \<longrightarrow> leer_archivos_excel carp patron req
                 = Inl (ValueError_columnas (name a) (columnas_faltantes req df)))
       \<and> (carp = INPUT_DIR env \<and> patron = ''*.xlsx'' \<and> req = Some COLUMNAS_REQUERIDAS
             \<longrightarrow> (\<exists>e. main env = (Inl e, [])))"
proof -
  have ne: "glob carp patron \<noteq> []" using assms(2) by auto
  from leer_cada_archivo_falla [OF assms(2,3,4)]
  obtain e where e: "leer_cada_archivo req (glob carp patron) [] = Inl e" by blast
  have err: "leer_archivos_excel carp patron req = Inl e"
    using assms(1) ne e by (simp add: leer_archivos_excel_def)
  have primera: "\<forall>previos resto dfs.
             glob carp patron = previos @ a # resto \<and> map read_excel previos = map Some dfs
             \<and> (\<forall>t \<in> set dfs. columnas_faltantes req t = {})
             \<longrightarrow> leer_archivos_excel carp patron req
                 = Inl (ValueError_columnas (name a) (columnas_faltantes req df))"
  proof (intro allI impI, elim conjE)
    fix previos resto dfs
    assume g: "glob carp patron = previos @ a # resto"
      and m: "map read_excel previos = map Some dfs"
      and c: "\<forall>t \<in> set dfs. columnas_faltantes req t = {}"
    have "leer_cada_archivo req (previos @ a # resto) []
          = Inl (ValueError_columnas (name a) (columnas_faltantes req df))"
      by (rule leer_cada_archivo_primera_falla [OF m c assms(3,4)])
    then show "leer_archivos_excel carp patron req
                 = Inl (ValueError_columnas (name a) (columnas_faltantes req df))"
      using assms(1) g by (simp add: leer_archivos_excel_def)
  qed
  have run: "carp = INPUT_DIR env \<and> patron = ''*.xlsx'' \<and> req = Some COLUMNAS_REQUERIDAS
             \<longrightarrow> (\<exists>e. main env = (Inl e, []))"
    using err main_sin_lectura [of env e] by auto
  from err primera run show ?thesis by blast
qed

text \<open>C2 amended, at a directory whose first file is sound and whose second file
  lacks \<open>Sucursal\<close>.\<close>

theorem C2_columnas_faltantes_witness:
  "exists ej_carpeta_incompleta
   \<and> glob ej_carpeta_incompleta ''*.xlsx''
       = [\<lparr>name = ''enero.xlsx'', read_excel = Some ej_enero\<rparr>,
          \<lparr>name = ''b.xlsx'', read_excel = Some ej_sin_sucursal\<rparr>]
   \<and> columnas_faltantes (Some COLUMNAS_REQUERIDAS) ej_enero = {}
   \<and> columnas_faltantes (Some COLUMNAS_REQUERIDAS) ej_sin_sucursal = {''Sucursal''}
   \<and> leer_archivos_excel ej_carpeta_incompleta ''*.xlsx'' (Some COLUMNAS_REQUERIDAS)
       = Inl (ValueError_columnas ''b.xlsx'' {''Sucursal''})
   \<and> (\<exists>e. main (ej_entorno ej_carpeta_incompleta) = (Inl e, []))"
proof -
  let ?a = "\<lparr>name = ''b.xlsx'', read_excel = Some ej_sin_sucursal\<rparr>"
  let ?p = "[\<lparr>name = ''enero.xlsx'', read_excel = Some ej_enero\<rparr>]"
  have h1: "exists ej_carpeta_incompleta" by (simp add: ej_carpeta_incompleta_def)
  have g: "glob ej_carpeta_incompleta ''*.xlsx'' = ?p @ ?a # []"
    by (simp add: ej_carpeta_incompleta_def)
  have h2: "?a \<in> set (glob ej_carpeta_incompleta ''*.xlsx'')" by (simp add: g)
  have h3: "read_excel ?a = Some ej_sin_sucursal" by simp
  have h4: "columnas_faltantes (Some COLUMNAS_REQUERIDAS) ej_sin_sucursal \<noteq> {}"
    by (simp add: faltantes_sin_sucursal)
  note c2 = C2_columnas_faltantes [OF h1 h2 h3 h4, of "ej_entorno ej_carpeta_incompleta"]
  have pre: "glob ej_carpeta_incompleta ''*.xlsx'' = ?p @ ?a # []
             \<and> map read_excel ?p = map Some [ej_enero]
             \<and> (\<forall>t \<in> set [ej_enero]. columnas_faltantes (Some COLUMNAS_REQUERIDAS) t = {})"
    using g by (simp add: faltantes_enero)
  have r: "leer_archivos_excel ej_carpeta_incompleta ''*.xlsx'' (Some COLUMNAS_REQUERIDAS)
           = Inl (ValueError_columnas (name ?a)
                    (columnas_faltantes (Some COLUMNAS_REQUERIDAS) ej_sin_sucursal))"
    by (rule c2 [THEN conjunct2, THEN conjunct1, THEN spec, THEN spec, THEN spec, THEN mp, OF pre])
  have e: "ej_carpeta_incompleta = INPUT_DIR (ej_entorno ej_carpeta_incompleta)
           \<and> ''*.xlsx'' = ''*.xlsx'' \<and> Some COLUMNAS_REQUERIDAS = Some COLUMNAS_REQUERIDAS"
    by (simp add: ej_entorno_def)
  have m: "\<exists>e. main (ej_entorno ej_carpeta_incompleta) = (Inl e, [])"
    by (rule c2 [THEN conjunct2, THEN conjunct2, THEN mp, OF e])
  from r have r': "leer_archivos_excel ej_carpeta_incompleta ''*.xlsx'' (Some COLUMNAS_REQUERIDAS)
       = Inl (ValueError_columnas ''b.xlsx'' {''Sucursal''})"
    by (simp add: faltantes_sin_sucursal)
  from h1 g r' m show ?thesis
    by (simp add: faltantes_sin_sucursal faltantes_enero)
qed

section \<open>The workbook\<close>

lemma imagenes_escribir [simp]: "imagenes (escribir c v w) = imagenes w"
  by (simp add: escribir_def)

lemma celdas_escribir [simp]: "celdas (escribir c v w) = celdas w @ [(c, v)]"
  by (simp add: escribir_def)

lemma title_escribir [simp]: "title (escribir c v w) = title w"
  by (simp add: escribir_def)

lemma imagenes_kpis:
  "imagenes (fold (\<lambda>(i, etiqueta, v) w. escribir (cc, k + i) v (escribir (cb, k + i) (Texto etiqueta) w)) xs w)
   = imagenes w"
  by (induction xs arbitrary: w) auto

lemma title_kpis:
  "title (fold (\<lambda>(i, etiqueta, v) w. escribir (cc, k + i) v (escribir (cb, k + i) (Texto etiqueta) w)) xs w)
   = title w"
  by (induction xs arbitrary: w) auto

lemma celdas_kpis:
  "celdas (fold (\<lambda>(i, etiqueta, v) w. escribir (cc, k + i) v (escribir (cb, k + i) (Texto etiqueta) w)) xs w)
   = celdas w @ concat (map (\<lambda>(i, etiqueta, v). [((cb, k + i), Texto etiqueta), ((cc, k + i), v)]) xs)"
  by (induction xs arbitrary: w) auto

lemma crear_hoja_dashboard_resultado:
  "\<exists>ws' ws0. crear_hoja_dashboard ws st graficos_dir = Inr ws'
     \<and> crear_hoja_dashboard ws st (\<lambda>archivo_png. None) = Inr ws0
     \<and> imagenes ws0 = imagenes ws
     \<and> celdas ws' = celdas ws0
     \<and> title ws' = title ws
     \<and> imagenes ws' = imagenes ws @
          List.map_filter (\<lambda>(archivo_png, celda, escala).
              map_option (\<lambda>img. (celda, escalar escala img)) (graficos_dir archivo_png))
            graficos_esperados"
  by (cases "graficos_dir ''ventas_sucursal.png''"; cases "graficos_dir ''categorias.png''";
      cases "graficos_dir ''tendencia.png''")
     (simp_all add: crear_hoja_dashboard_def Let_def insertar_si_existe_def
        insertar_imagen_en_excel_def imagenes_kpis celdas_kpis title_kpis graficos_esperados_def
        List.map_filter_simps)

lemma title_formatear_columna [simp]: "title (formatear_columna fmt ws c n) = title ws"
  by (simp add: formatear_columna_def)

lemma title_formatear_datos [simp]: "title (formatear_datos ws) = title ws"
  by (simp add: formatear_datos_def Let_def aplicar_formato_profesional_def
      formatear_moneda_columna_def formatear_numero_columna_def crear_tabla_excel_def)

lemma title_formatear_top [simp]: "title (formatear_top ws) = title ws"
  by (simp add: formatear_top_def Let_def aplicar_formato_profesional_def
      formatear_moneda_columna_def formatear_numero_columna_def)

lemma title_formatear_vendedores [simp]: "title (formatear_vendedores ws) = title ws"
  by (simp add: formatear_vendedores_def Let_def aplicar_formato_profesional_def
      formatear_moneda_columna_def formatear_numero_columna_def crear_tabla_excel_def)

lemma title_formatear_sucursales [simp]: "title (formatear_sucursales ws) = title ws"
  by (simp add: formatear_sucursales_def Let_def aplicar_formato_profesional_def
      formatear_moneda_columna_def formatear_numero_columna_def formatear_porcentaje_columna_def)

lemma title_hoja_nueva [simp]: "title (hoja_nueva nombre d) = nombre"
  by (simp add: hoja_nueva_def)

lemma aplicar_formatos_crear_excel:
  "\<exists>wb'. aplicar_formatos (crear_excel df tc tm ven suc) st graficos_dir = Inr wb'
         \<and> map title wb' = nombres_hojas"
proof -
  obtain d where d: "crear_hoja_dashboard (hoja_nueva ''Dashboard'' Vacio) st graficos_dir = Inr d"
    and t: "title d = title (hoja_nueva ''Dashboard'' Vacio)"
    using crear_hoja_dashboard_resultado [of "hoja_nueva ''Dashboard'' Vacio" st graficos_dir]
    by blast
  have t': "title d = ''Dashboard''" using t by simp
  show ?thesis
    by (simp add: aplicar_formatos_def crear_excel_def d t' nombres_hojas_def)
qed

text \<open>
  C9. Whatever chart images the directory holds, \<open>crear_hoja_dashboard\<close> returns a
  sheet and no error: the cells written are those written when no image is there, and
  the images embedded are exactly those of the expected files that are present, each
  at its anchor, in the order ventas\_sucursal, categorias, tendencia. The formatting
  step of the run, which calls it, returns a workbook for every such directory.
\<close>

theorem C9_graficos_ausentes:
  "(\<exists>ws' ws0. crear_hoja_dashboard ws st graficos_dir = Inr ws'
     \<and> crear_hoja_dashboard ws st (\<lambda>archivo_png. None) = Inr ws0
     \<and> imagenes ws0 = imagenes ws
     \<and> celdas ws' = celdas ws0
     \<and> imagenes ws' = imagenes ws @
          List.map_filter (\<lambda>(archivo_png, celda, escala).
              map_option (\<lambda>img. (celda, escalar escala img)) (graficos_dir archivo_png))
            graficos_esperados)
   \<and> (\<exists>wb'. aplicar_formatos (crear_excel df tc tm ven suc) st graficos_dir = Inr wb')"
proof
  from crear_hoja_dashboard_resultado [of ws st graficos_dir]
  show "\<exists>ws' ws0. crear_hoja_dashboard ws st graficos_dir = Inr ws'
     \<and> crear_hoja_dashboard ws st (\<lambda>archivo_png. None) = Inr ws0
     \<and> imagenes ws0 = imagenes ws
     \<and> celdas ws' = celdas ws0
     \<and> imagenes ws' = imagenes ws @
          List.map_filter (\<lambda>(archivo_png, celda, escala).
              map_option (\<lambda>img. (celda, escalar escala img)) (graficos_dir archivo_png))
            graficos_esperados"
    by blast
  from aplicar_formatos_crear_excel [of df tc tm ven suc st graficos_dir]
  show "\<exists>wb'. aplicar_formatos (crear_excel df tc tm ven suc) st graficos_dir = Inr wb'"
    by blast
qed

text \<open>C9 at a directory that holds the category chart only: one image, at I14.\<close>

theorem C9_graficos_ausentes_witness:
  "\<exists>ws'. crear_hoja_dashboard (hoja_nueva ''Dashboard'' Vacio) ej_stats
            [''categorias.png'' \<mapsto> \<lparr>img_width = 3000, img_height = 1800\<rparr>] = Inr ws'
        \<and> imagenes ws' = [((''I'', 14), \<lparr>img_width = 1650, img_height = 990\<rparr>)]"
proof -
  let ?dir = "[''categorias.png'' \<mapsto> \<lparr>img_width = 3000, img_height = 1800\<rparr>]"
  from C9_graficos_ausentes [of "hoja_nueva ''Dashboard'' Vacio" ej_stats ?dir]
  obtain ws' where r: "crear_hoja_dashboard (hoja_nueva ''Dashboard'' Vacio) ej_stats ?dir = Inr ws'"
    and i: "imagenes ws' = imagenes (hoja_nueva ''Dashboard'' Vacio) @
          List.map_filter (\<lambda>(archivo_png, celda, escala).
              map_option (\<lambda>img. (celda, escalar escala img)) (?dir archivo_png))
            graficos_esperados"
    by blast
  have "imagenes ws' = [((''I'', 14), \<lparr>img_width = 1650, img_height = 990\<rparr>)]"
    unfolding i
    by (simp add: hoja_nueva_def graficos_esperados_def List.map_filter_simps escalar_def)
  with r show ?thesis by blast
qed

lemma main_hojas:
  assumes "main env = (Inr wb, escritos)"
  shows "map title wb = nombres_hojas"
proof (cases "analizar env")
  case (Inl e)
  with assms show ?thesis by (simp add: main_def)
next
  case (Inr a)
  let ?suc = "map (\<lambda>x. (clave x, Total_Ventas x)) (ventas_sucursal a)"
  let ?cat = "map (\<lambda>x. (clave x, Total_Ventas x)) (categorias_stats a)"
  show ?thesis
  proof (cases "savefig env Barras ?suc")
    case None
    with assms Inr show ?thesis by (simp add: main_def)
  next
    case g1: (Some g1)
    show ?thesis
    proof (cases "savefig env Circular ?cat")
      case None
      with assms Inr g1 show ?thesis by (simp add: main_def)
    next
      case g2: (Some g2)
      show ?thesis
      proof (cases "savefig env Linea (tendencia a)")
        case None
        with assms Inr g1 g2 show ?thesis by (simp add: main_def)
      next
        case g3: (Some g3)
        let ?dir = "[''ventas_sucursal.png'' \<mapsto> g1, ''categorias.png'' \<mapsto> g2,
                     ''tendencia.png'' \<mapsto> g3]"
        obtain wb' where f: "aplicar_formatos (crear_excel (df_consolidado a) (top_cantidad a)
              (top_monto a) (vendedores_stats a) (ventas_sucursal a)) (estadisticas a) ?dir
              = Inr wb'" and t: "map title wb' = nombres_hojas"
          using aplicar_formatos_crear_excel by blast
        have "fst (main env) = Inr wb'"
          by (simp add: main_def Inr g1 g2 g3 f)
        with assms have "wb = wb'" by simp
        with t show ?thesis by simp
      qed
    qed
  qed
qed

lemma ej_analizar: "isl (analizar (ej_entorno ej_carpeta)) = False"
  by code_simp

lemma ej_main:
  "\<exists>wb. main (ej_entorno ej_carpeta)
          = (Inr wb, [''graficos_temp/ventas_sucursal.png'', ''graficos_temp/categorias.png'',
                      ''graficos_temp/tendencia.png'', ''reporte_consolidado.xlsx'',
                      ''reporte_consolidado.xlsx''])"
proof -
  obtain a where a: "analizar (ej_entorno ej_carpeta) = Inr a"
    using ej_analizar by (cases "analizar (ej_entorno ej_carpeta)") auto
  have s: "savefig (ej_entorno ej_carpeta) g d = Some \<lparr>img_width = 3000, img_height = 1800\<rparr>" for g d
    by (simp add: ej_entorno_def)
  let ?dir = "[''ventas_sucursal.png'' \<mapsto> \<lparr>img_width = 3000, img_height = 1800\<rparr>,
               ''categorias.png'' \<mapsto> \<lparr>img_width = 3000, img_height = 1800\<rparr>,
               ''tendencia.png'' \<mapsto> \<lparr>img_width = 3000, img_height = 1800\<rparr>]"
  obtain wb' where "aplicar_formatos (crear_excel (df_consolidado a) (top_cantidad a) (top_monto a)
        (vendedores_stats a) (ventas_sucursal a)) (estadisticas a) ?dir = Inr wb'"
    using aplicar_formatos_crear_excel by blast
  then show ?thesis by (simp add: main_def a s)
qed

text \<open>
  C7 as stated fails: the run on the example directory succeeds, and the names of its
  sheets are not Dashboard, Consolidated\_Data, Top\_Products, Salesperson\_Analysis,
  Branch\_Summary.
\<close>

theorem C7_counterexample:
  "\<exists>wb escritos. main (ej_entorno ej_carpeta) = (Inr wb, escritos)
     \<and> map title wb \<noteq> [''Dashboard'', ''Consolidated_Data'', ''Top_Products'',
                          ''Salesperson_Analysis'', ''Branch_Summary'']"
proof -
  from ej_main obtain wb escritos where m: "main (ej_entorno ej_carpeta) = (Inr wb, escritos)"
    by blast
  have "map title wb = nombres_hojas" by (rule main_hojas [OF m])
  then have "map title wb \<noteq> [''Dashboard'', ''Consolidated_Data'', ''Top_Products'',
                          ''Salesperson_Analysis'', ''Branch_Summary'']"
    by (simp add: nombres_hojas_def)
  with m show ?thesis
    by (intro exI [of _ wb] exI [of _ escritos] conjI)
qed

text \<open>
  C7, amended. The workbook of a successful run has exactly five sheets, named, in this
  order, Dashboard, Datos\_Consolidados, Top\_Productos, Analisis\_Vendedores,
  Resumen\_Sucursales.
\<close>

theorem C7_hojas:
  assumes "main env = (Inr wb, escritos)"
  shows "map title wb = [''Dashboard'', ''Datos_Consolidados'', ''Top_Productos'',
                         ''Analisis_Vendedores'', ''Resumen_Sucursales'']
         \<and> length wb = 5"
proof -
  have t: "map title wb = nombres_hojas" by (rule main_hojas [OF assms])
  have "length wb = length (map title wb)" by simp
  also have "\<dots> = 5" unfolding t by (simp add: nombres_hojas_def)
  finally show ?thesis using t by (simp add: nombres_hojas_def)
qed

text \<open>C7 amended, at the run on the example directory.\<close>

theorem C7_hojas_witness:
  "\<exists>wb escritos. main (ej_entorno ej_carpeta) = (Inr wb, escritos)
     \<and> map title wb = [''Dashboard'', ''Datos_Consolidados'', ''Top_Productos'',
                         ''Analisis_Vendedores'', ''Resumen_Sucursales'']
     \<and> length wb = 5"
proof -
  from ej_main obtain wb escritos where m: "main (ej_entorno ej_carpeta) = (Inr wb, escritos)"
    by blast
  show ?thesis
    by (rule exI [of _ wb], rule exI [of _ escritos], rule conjI [OF m C7_hojas [OF m]])
qed

section \<open>Grouped summaries\<close>

lemma todos_Inr: "todos xs = Inr vs \<Longrightarrow> xs = map Inr vs"
  by (induction xs arbitrary: vs) (auto split: sum.splits)

lemma todos_map_Inr:
  assumes "todos (map F gs) = Inr vs"
  shows "map F gs = map Inr vs"
  using assms by (rule todos_Inr)



lemma set_claves: "set (claves ks) = set ks - {Null}"
  by (auto simp: claves_def)


lemma set_sort_values_desc [simp]: "set (sort_values_desc f xs) = set xs"
  by (simp add: sort_values_desc_def)








section \<open>Rankings\<close>






















section \<open>Shares\<close>























section \<open>Rounding\<close>



















lemma ej_dos_decimales: "dos_decimales 10 \<and> dos_decimales 5"
  by code_simp




end
